theory Spec2Isabelle
  imports Main
begin

section \<open>Geometry: the parts of QPoint and QRect that the program uses\<close>

text \<open>
  The overlay works on Qt's integer points and rectangles. A rectangle is kept as
  its left edge, top edge, width and height. Coordinates are modelled as Python's
  integers; pointer and screen coordinates are far inside Qt's 32-bit range. The one
  place where arbitrary integers reach a rectangle (the persisted geometry) checks
  the range of the four arguments explicitly below, and the two edges that Qt derives
  from them wrap around as Qt's do.
\<close>

record QPoint =
  px :: int
  py :: int

record QRect =
  rx :: int
  ry :: int
  rwidth :: int
  rheight :: int

definition QRect_new :: "int \<Rightarrow> int \<Rightarrow> int \<Rightarrow> int \<Rightarrow> QRect" where
  "QRect_new l t w h = \<lparr>rx = l, ry = t, rwidth = w, rheight = h\<rparr>"

definition left :: "QRect \<Rightarrow> int" where
  "left r = rx r"

definition top_edge :: "QRect \<Rightarrow> int" where
  "top_edge r = ry r"

text \<open>
  Qt computes with 32-bit signed integers: a result outside the range comes back
  wrapped around.
\<close>

definition wrap32 :: "int \<Rightarrow> int" where
  "wrap32 i = (i + 2147483648) mod 4294967296 - 2147483648"

text \<open>
  Qt's \<open>right()\<close> and \<open>bottom()\<close> are the last column and row inside the rectangle.
  Qt keeps them as the 32-bit fields \<open>x2 = x1 + width - 1\<close> and \<open>y2 = y1 + height - 1\<close>,
  so for a rectangle that reaches past the largest integer they wrap around:
  \<open>QRect(2147483647, 0, 10, 10).right()\<close> is \<open>-2147483640\<close>.
\<close>

definition right :: "QRect \<Rightarrow> int" where
  "right r = wrap32 (rx r + rwidth r - 1)"

definition bottom :: "QRect \<Rightarrow> int" where
  "bottom r = wrap32 (ry r + rheight r - 1)"

text \<open>
  \<open>QRect.contains(point)\<close>, edges included. Qt swaps the two edges of an axis when the
  far edge lies more than one unit before the near edge (a negative extent, or a far
  edge that has wrapped around).
\<close>

definition contains :: "QRect \<Rightarrow> QPoint \<Rightarrow> bool" where
  "contains r p =
     (let l = (if right r < wrap32 (rx r - 1) then right r else rx r);
          rr = (if right r < wrap32 (rx r - 1) then rx r else right r);
          t = (if bottom r < wrap32 (ry r - 1) then bottom r else ry r);
          b = (if bottom r < wrap32 (ry r - 1) then ry r else bottom r)
      in \<not> (px p < l \<or> px p > rr) \<and> \<not> (py p < t \<or> py p > b))"

text \<open>\<open>moveTo\<close> keeps the size; \<open>setWidth\<close> and \<open>setHeight\<close> keep the top-left corner.\<close>

definition moveTo :: "QRect \<Rightarrow> int \<Rightarrow> int \<Rightarrow> QRect" where
  "moveTo r x y = r\<lparr>rx := x, ry := y\<rparr>"

definition setWidth :: "QRect \<Rightarrow> int \<Rightarrow> QRect" where
  "setWidth r w = r\<lparr>rwidth := w\<rparr>"

definition setHeight :: "QRect \<Rightarrow> int \<Rightarrow> QRect" where
  "setHeight r h = r\<lparr>rheight := h\<rparr>"

definition point_diff :: "QPoint \<Rightarrow> QPoint \<Rightarrow> QPoint" where
  "point_diff p q = \<lparr>px = px p - px q, py = py p - py q\<rparr>"

section \<open>DraggableResizableBox\<close>

text \<open>
  The box keeps its rectangle, the two interaction flags, the resize margin and the
  last pointer position. Colour and font only matter to painting and are left out.
  The screen size lives in the parent overlay; the handlers that read it take it as
  the arguments \<open>screen_width\<close> and \<open>screen_height\<close>.
\<close>

record box =
  rect :: QRect
  is_translation_box :: bool
  dragging :: bool
  resizing :: bool
  resize_margin :: int
  drag_start :: QPoint

definition box_init :: "QRect \<Rightarrow> bool \<Rightarrow> box" where
  "box_init initial_rect is_tb =
     \<lparr>rect = initial_rect, is_translation_box = is_tb, dragging = False,
      resizing = False, resize_margin = 10, drag_start = \<lparr>px = 0, py = 0\<rparr>\<rparr>"

text \<open>
  \<open>mouse_press_event\<close>: the second component tells whether the event was accepted
  (\<open>event.accept()\<close>) or ignored.
\<close>

definition mouse_press_event :: "QPoint \<Rightarrow> box \<Rightarrow> box \<times> bool" where
  "mouse_press_event pos b =
     (if contains (rect b) pos then
        (let b1 = (if \<bar>px pos - right (rect b)\<bar> < resize_margin b \<and>
                      \<bar>py pos - bottom (rect b)\<bar> < resize_margin b
                   then b\<lparr>resizing := True\<rparr>
                   else b\<lparr>dragging := True\<rparr>)
         in (b1\<lparr>drag_start := pos\<rparr>, True))
      else (b, False))"

text \<open>\<open>mouse_move_event\<close>: the second component is the returned boolean.\<close>

definition mouse_move_event :: "int \<Rightarrow> int \<Rightarrow> QPoint \<Rightarrow> box \<Rightarrow> box \<times> bool" where
  "mouse_move_event screen_width screen_height pos b =
     (if dragging b then
        (let delta = point_diff pos (drag_start b);
             new_x = rx (rect b) + px delta;
             new_y = ry (rect b) + py delta;
             new_x = max 0 (min new_x (screen_width - rwidth (rect b)));
             new_y = max 0 (min new_y (screen_height - rheight (rect b)))
         in (b\<lparr>rect := moveTo (rect b) new_x new_y, drag_start := pos\<rparr>, True))
      else if resizing b then
        (let delta = point_diff pos (drag_start b);
             new_width = max (rwidth (rect b) + px delta) 100;
             new_height = max (rheight (rect b) + py delta) 50;
             new_width = min new_width (screen_width - rx (rect b));
             new_height = min new_height (screen_height - ry (rect b))
         in (b\<lparr>rect := setHeight (setWidth (rect b) new_width) new_height,
                drag_start := pos\<rparr>, True))
      else (b, False))"

definition mouse_release_event :: "box \<Rightarrow> box" where
  "mouse_release_event b = b\<lparr>dragging := False, resizing := False\<rparr>"

definition contains_point :: "box \<Rightarrow> QPoint \<Rightarrow> bool" where
  "contains_point b pos = contains (rect b) pos"

text \<open>
  A run of pointer moves delivered to one box, in order. Each move hands the box it
  produced to the next one.
\<close>

fun moves :: "int \<Rightarrow> int \<Rightarrow> QPoint list \<Rightarrow> box \<Rightarrow> box" where
  "moves sw sh [] b = b"
| "moves sw sh (p # ps) b = moves sw sh ps (fst (mouse_move_event sw sh p b))"

text \<open>The rectangle invariant of the data model, for a given screen.\<close>

definition rect_inv :: "int \<Rightarrow> int \<Rightarrow> QRect \<Rightarrow> bool" where
  "rect_inv sw sh r \<longleftrightarrow>
     100 \<le> rwidth r \<and> 50 \<le> rheight r \<and> 0 \<le> rx r \<and> 0 \<le> ry r \<and>
     rx r + rwidth r \<le> sw \<and> ry r + rheight r \<le> sh"

section \<open>Python strings and the parsing of persisted geometry\<close>

text \<open>
  A Python \<open>str\<close> is a sequence of Unicode code points, so it is modelled as a list of
  natural numbers; \<open>''Hello''\<close> is \<open>[72, 101, 108, 108, 111]\<close>.
\<close>

type_synonym pystr = "nat list"

datatype exn = ValueError | OverflowError | CaptureError | RecognitionError | TranslationError

text \<open>The code points for which \<open>str.isspace\<close> holds; \<open>str.strip()\<close> removes them at both ends.\<close>

definition isspace :: "nat \<Rightarrow> bool" where
  "isspace c \<longleftrightarrow>
     (9 \<le> c \<and> c \<le> 13) \<or> (28 \<le> c \<and> c \<le> 32) \<or> c = 133 \<or> c = 160 \<or> c = 5760 \<or>
     (8192 \<le> c \<and> c \<le> 8202) \<or> c = 8232 \<or> c = 8233 \<or> c = 8239 \<or> c = 8287 \<or> c = 12288"

definition strip_with :: "(nat \<Rightarrow> bool) \<Rightarrow> pystr \<Rightarrow> pystr" where
  "strip_with sp s = rev (dropWhile sp (rev (dropWhile sp s)))"

definition strip :: "pystr \<Rightarrow> pystr" where
  "strip s = strip_with isspace s"

text \<open>\<open>s.split(sep)\<close> for a one-character separator: never an empty list.\<close>

fun split :: "nat \<Rightarrow> pystr \<Rightarrow> pystr list" where
  "split sep [] = [[]]"
| "split sep (c # cs) =
     (if c = sep then [] # split sep cs
      else (case split sep cs of [] \<Rightarrow> [[c]] | f # fs \<Rightarrow> (c # f) # fs))"

text \<open>
  \<open>int(s)\<close> on a string, base ten. The interpreter drops surrounding white space
  (the ASCII white space and the non-ASCII code points of \<open>isspace\<close>; the separators
  28 to 31 are not dropped here), reads an optional sign, and then wants decimal
  digits, where single underscores may stand between digits. Every Unicode decimal
  digit counts: the digits come in runs of ten that start at the code points of
  \<open>decimal_starts\<close>. \<open>None\<close> stands for the \<open>ValueError\<close> of a string that is not a
  number.
\<close>

definition int_space :: "nat \<Rightarrow> bool" where
  "int_space c \<longleftrightarrow> isspace c \<and> \<not> (28 \<le> c \<and> c \<le> 31)"

definition decimal_starts :: "nat list" where
  "decimal_starts =
     [48, 1632, 1776, 1984, 2406, 2534, 2662, 2790, 2918, 3046, 3174, 3302, 3430, 3558,
      3664, 3792, 3872, 4160, 4240, 6112, 6160, 6470, 6608, 6784, 6800, 6992, 7088, 7232,
      7248, 42528, 43216, 43264, 43472, 43504, 43600, 44016, 65296, 66720, 68912, 69734,
      69872, 69942, 70096, 70384, 70736, 70864, 71248, 71360, 71472, 71904, 72016, 72784,
      73040, 73120, 92768, 92864, 93008, 120782, 120792, 120802, 120812, 120822, 123200,
      123632, 125264, 130032]"

definition digit_value :: "nat \<Rightarrow> nat option" where
  "digit_value c =
     (case filter (\<lambda>s. s \<le> c \<and> c < s + 10) decimal_starts of
        [] \<Rightarrow> None
      | s # _ \<Rightarrow> Some (c - s))"

text \<open>
  The digits after the sign. The flag says that the previous character was a digit,
  which is what an underscore and the end of the string both need.
\<close>

fun parse_digits :: "nat \<Rightarrow> bool \<Rightarrow> pystr \<Rightarrow> nat option" where
  "parse_digits acc after_digit [] = (if after_digit then Some acc else None)"
| "parse_digits acc after_digit (c # cs) =
     (if c = 95 then (if after_digit then parse_digits acc False cs else None)
      else (case digit_value c of
              None \<Rightarrow> None
            | Some d \<Rightarrow> parse_digits (10 * acc + d) True cs))"

definition py_int :: "pystr \<Rightarrow> int option" where
  "py_int s =
     (case strip_with int_space s of
        [] \<Rightarrow> None
      | c # cs \<Rightarrow>
          if c = 45 then map_option (\<lambda>n. - int n) (parse_digits 0 False cs)
          else if c = 43 then map_option int (parse_digits 0 False cs)
          else map_option int (parse_digits 0 False (c # cs)))"

text \<open>
  The constructor \<open>QRect(left, top, width, height)\<close> called from Python: an argument
  outside the 32-bit range is refused with \<open>OverflowError\<close>.
\<close>

definition c_int :: "int \<Rightarrow> bool" where
  "c_int i \<longleftrightarrow> - 2147483648 \<le> i \<and> i \<le> 2147483647"

definition QRect_from_python :: "int \<Rightarrow> int \<Rightarrow> int \<Rightarrow> int \<Rightarrow> exn + QRect" where
  "QRect_from_python l t w h =
     (if c_int l \<and> c_int t \<and> c_int w \<and> c_int h then Inr (QRect_new l t w h)
      else Inl OverflowError)"

text \<open>
  The block that \<open>init_ui\<close> runs for each of the two keys:
  \<^verbatim>\<open>left, top, width, height = map(int, data.split(","))\<close> followed by the constructor,
  or the default rectangle when nothing is stored. A wrong number of fields and a
  field that is not a number both raise \<open>ValueError\<close>; nothing catches it.
\<close>

definition load_geometry :: "pystr option \<Rightarrow> QRect \<Rightarrow> exn + QRect" where
  "load_geometry data default_rect =
     (case data of
        None \<Rightarrow> Inr default_rect
      | Some s \<Rightarrow>
          (case map py_int (split 44 s) of
             [Some l, Some t, Some w, Some h] \<Rightarrow> QRect_from_python l t w h
           | _ \<Rightarrow> Inl ValueError))"

definition default_selection_rect :: QRect where
  "default_selection_rect = QRect_new 100 100 300 200"

definition default_translation_rect :: QRect where
  "default_translation_rect = QRect_new 420 100 300 200"

text \<open>
  \<open>init_ui\<close>, as far as the boxes go: the settings store maps a key to the stored
  string, if any. The result is the selection box and the translation box, or the
  exception that leaves \<open>init_ui\<close>.
\<close>

definition init_ui :: "(string \<rightharpoonup> pystr) \<Rightarrow> exn + (box \<times> box)" where
  "init_ui settings =
     (case load_geometry (settings ''selection_box_geometry'') default_selection_rect of
        Inl e \<Rightarrow> Inl e
      | Inr selection_rect \<Rightarrow>
          (case load_geometry (settings ''translation_box_geometry'') default_translation_rect of
             Inl e \<Rightarrow> Inl e
           | Inr translation_rect \<Rightarrow>
               Inr (box_init selection_rect False, box_init translation_rect True)))"

text \<open>A stored value is malformed when it is not four comma-separated integers.\<close>

definition malformed :: "pystr \<Rightarrow> bool" where
  "malformed s \<longleftrightarrow> length (split 44 s) \<noteq> 4 \<or> list_ex (\<lambda>f. py_int f = None) (split 44 s)"

section \<open>The overlay and the capture pipeline\<close>

record monitor =
  m_top :: int
  m_left :: int
  m_width :: int
  m_height :: int

record shot =
  shot_size :: "int \<times> int"
  shot_rgb :: "nat list"

type_synonym image = "nat list"

text \<open>
  The services outside the program, as they answer during one pass of the loop:
  the screen grabber, the conversion of the grabbed bytes into an image, the text
  recognition and the translation. Each one returns its result or raises.
\<close>

record world =
  grab :: "monitor \<Rightarrow> exn + shot"
  frombytes :: "int \<times> int \<Rightarrow> nat list \<Rightarrow> exn + image"
  image_to_string :: "image \<Rightarrow> exn + pystr"
  translate :: "pystr \<Rightarrow> exn + pystr"

text \<open>What the pipeline thread does to the outside, in order.\<close>

datatype effect =
    CallGrab monitor
  | CallFromBytes "int \<times> int" "nat list"
  | CallImageToString image
  | PrintOcr pystr
  | CallTranslate pystr
  | PrintTranslated pystr
  | PrintError exn
  | Sleep

text \<open>
  The overlay object. \<open>queued\<close> holds the arguments of the \<open>update_translation\<close>
  calls posted with a queued connection and not yet run by the event loop;
  \<open>updates\<close> counts the calls of \<open>self.update()\<close>, that is the redraws requested;
  \<open>effects\<close> is the log of the pipeline thread.
\<close>

record overlay =
  screen_width :: int
  screen_height :: int
  selection_box :: box
  translation_box :: box
  translated_text :: pystr
  running :: bool
  queued :: "pystr list"
  updates :: nat
  effects :: "effect list"

definition Overlay_init :: "int \<Rightarrow> int \<Rightarrow> (string \<rightharpoonup> pystr) \<Rightarrow> exn + overlay" where
  "Overlay_init sw sh settings =
     (case init_ui settings of
        Inl e \<Rightarrow> Inl e
      | Inr (sel, tr) \<Rightarrow>
          Inr \<lparr>screen_width = sw, screen_height = sh, selection_box = sel,
               translation_box = tr, translated_text = [], running = True,
               queued = [], updates = 0, effects = []\<rparr>)"

definition did :: "effect \<Rightarrow> overlay \<Rightarrow> overlay" where
  "did e s = s\<lparr>effects := effects s @ [e]\<rparr>"

text \<open>
  The body of the \<open>try\<close> statement. It returns the state it reached and the exception
  that ended it, if one did.
\<close>

definition try_body :: "world \<Rightarrow> monitor \<Rightarrow> overlay \<Rightarrow> overlay \<times> exn option" where
  "try_body w mon s0 =
     (let s1 = did (CallGrab mon) s0 in
      case grab w mon of
        Inl e \<Rightarrow> (s1, Some e)
      | Inr sct_img \<Rightarrow>
          (let s2 = did (CallFromBytes (shot_size sct_img) (shot_rgb sct_img)) s1 in
           case frombytes w (shot_size sct_img) (shot_rgb sct_img) of
             Inl e \<Rightarrow> (s2, Some e)
           | Inr img \<Rightarrow>
               (let s3 = did (CallImageToString img) s2 in
                case image_to_string w img of
                  Inl e \<Rightarrow> (s3, Some e)
                | Inr text \<Rightarrow>
                    (let s4 = did (PrintOcr text) s3 in
                     if strip text \<noteq> [] then
                       (let s5 = did (CallTranslate text) s4 in
                        case translate w text of
                          Inl e \<Rightarrow> (s5, Some e)
                        | Inr translated \<Rightarrow>
                            (let s6 = did (PrintTranslated translated) s5
                             in (s6\<lparr>queued := queued s6 @ [translated]\<rparr>, None)))
                     else (s4, None)))))"

text \<open>
  The dictionary \<open>monitor\<close> built at the head of each pass from the selection box,
  when the user-interface thread does not run between the four reads.
\<close>

definition read_monitor :: "overlay \<Rightarrow> monitor" where
  "read_monitor s =
     \<lparr>m_top = top_edge (rect (selection_box s)),
      m_left = left (rect (selection_box s)),
      m_width = rwidth (rect (selection_box s)),
      m_height = rheight (rect (selection_box s))\<rparr>"

text \<open>One pass of the \<open>while\<close> loop: read the rectangle, try, report, sleep.\<close>

definition iteration :: "world \<Rightarrow> overlay \<Rightarrow> overlay" where
  "iteration w s =
     (let mon = read_monitor s;
          (s1, raised) = try_body w mon s;
          s2 = (case raised of None \<Rightarrow> s1 | Some e \<Rightarrow> did (PrintError e) s1)
      in did Sleep s2)"

text \<open>
  The loop \<open>while self.running\<close>. It has no exit of its own, so the model runs it for
  as many passes as there are worlds in the list and gives the state reached then;
  it stops earlier when the flag is found cleared.
\<close>

fun capture_and_translate :: "world list \<Rightarrow> overlay \<Rightarrow> overlay" where
  "capture_and_translate [] s = s"
| "capture_and_translate (w # ws) s =
     (if running s then capture_and_translate ws (iteration w s) else s)"

text \<open>
  The slot \<open>update_translation\<close>. The parent of the translation box is the overlay
  itself, so both assignments write the same attribute.
\<close>

definition update_translation :: "pystr \<Rightarrow> overlay \<Rightarrow> overlay" where
  "update_translation text s = s\<lparr>translated_text := text, updates := updates s + 1\<rparr>"

text \<open>The event loop of the user-interface thread runs the queued calls in order.\<close>

definition process_events :: "overlay \<Rightarrow> overlay" where
  "process_events s = fold update_translation (queued s) (s\<lparr>queued := []\<rparr>)"

section \<open>The four reads of the rectangle and the user-interface thread\<close>

text \<open>
  \<open>Overlay.mouseMoveEvent\<close>, run by the user-interface thread: the translation box is
  asked first, then the selection box; a move that a box takes requests a redraw.
  Presses and releases never change a rectangle, so moves are the events that can
  change what the pipeline reads.
\<close>

definition mouseMoveEvent :: "QPoint \<Rightarrow> overlay \<Rightarrow> overlay" where
  "mouseMoveEvent pos s =
     (let (tb, taken) =
            (if dragging (translation_box s) \<or> resizing (translation_box s)
             then mouse_move_event (screen_width s) (screen_height s) pos (translation_box s)
             else (translation_box s, False));
          s1 = s\<lparr>translation_box := tb\<rparr>
      in if taken then s1\<lparr>updates := updates s1 + 1\<rparr>
         else
           (let (sb, taken) =
                  (if dragging (selection_box s1) \<or> resizing (selection_box s1)
                   then mouse_move_event (screen_width s1) (screen_height s1) pos
                          (selection_box s1)
                   else (selection_box s1, False));
                s2 = s1\<lparr>selection_box := sb\<rparr>
            in if taken then s2\<lparr>updates := updates s2 + 1\<rparr> else s2))"

text \<open>
  The pipeline thread builds \<open>monitor\<close> with four separate calls on the rectangle that
  the user-interface thread owns: \<open>top()\<close>, \<open>left()\<close>, \<open>width()\<close>, \<open>height()\<close>. There is no
  lock and no copy, so each call sees the overlay as it is at that moment.
  \<open>read_monitor_at\<close> takes the four states in the order of the reads.
\<close>

definition read_monitor_at :: "overlay \<Rightarrow> overlay \<Rightarrow> overlay \<Rightarrow> overlay \<Rightarrow> monitor" where
  "read_monitor_at s_top s_left s_width s_height =
     \<lparr>m_top = top_edge (rect (selection_box s_top)),
      m_left = left (rect (selection_box s_left)),
      m_width = rwidth (rect (selection_box s_width)),
      m_height = rheight (rect (selection_box s_height))\<rparr>"

text \<open>
  The four reads with pointer moves handled by the user-interface thread in between:
  \<open>after_top\<close> between the reads of top and left, \<open>after_left\<close> between left and width,
  \<open>after_width\<close> between width and height.
\<close>

definition read_monitor_interleaved ::
  "QPoint list \<Rightarrow> QPoint list \<Rightarrow> QPoint list \<Rightarrow> overlay \<Rightarrow> monitor" where
  "read_monitor_interleaved after_top after_left after_width s =
     (let s2 = fold mouseMoveEvent after_top s;
          s3 = fold mouseMoveEvent after_left s2;
          s4 = fold mouseMoveEvent after_width s3
      in read_monitor_at s s2 s3 s4)"

section \<open>Concrete boxes, settings and services used in the examples\<close>

text \<open>A box restored from the stored geometry \<open>2147483647,0,10,10\<close>.\<close>

definition edge_box :: box where
  "edge_box = box_init (QRect_new 2147483647 0 10 10) False"

definition edge_settings :: "string \<rightharpoonup> pystr" where
  "edge_settings =
     [''selection_box_geometry'' \<mapsto>
        [50, 49, 52, 55, 52, 56, 51, 54, 52, 55, 44, 48, 44, 49, 48, 44, 49, 48]]"

text \<open>The overlay with nothing stored, while the user drags the selection box.\<close>

definition dragged_overlay :: overlay where
  "dragged_overlay =
     \<lparr>screen_width = 1920, screen_height = 1080,
      selection_box = (box_init (QRect_new 100 100 300 200) False)
        \<lparr>dragging := True, drag_start := \<lparr>px = 200, py = 200\<rparr>\<rparr>,
      translation_box = box_init (QRect_new 420 100 300 200) True,
      translated_text = [], running = True, queued = [], updates = 0, effects = []\<rparr>"

definition idle_box :: box where
  "idle_box = box_init (QRect_new 100 100 300 200) False"

definition dragging_box :: box where
  "dragging_box = (box_init (QRect_new 150 150 300 200) False)
      \<lparr>dragging := True, drag_start := \<lparr>px = 200, py = 200\<rparr>\<rparr>"

definition resizing_box :: box where
  "resizing_box = (box_init (QRect_new 100 100 300 200) False)
      \<lparr>resizing := True, drag_start := \<lparr>px = 395, py = 295\<rparr>\<rparr>"

text \<open>A box restored from a geometry that was saved on a wider screen.\<close>

definition wide_box :: box where
  "wide_box = (box_init (QRect_new 0 0 3000 200) False)
      \<lparr>dragging := True, drag_start := \<lparr>px = 10, py = 10\<rparr>\<rparr>"

text \<open>Stored values: \<open>abc\<close> for the selection box; \<open>1,2,3\<close> for the translation box.\<close>

definition bad_settings :: "string \<rightharpoonup> pystr" where
  "bad_settings = [''selection_box_geometry'' \<mapsto> [97, 98, 99]]"

definition short_settings :: "string \<rightharpoonup> pystr" where
  "short_settings = [''translation_box_geometry'' \<mapsto> [49, 44, 50, 44, 51]]"

text \<open>The overlay as it starts on a 1920 by 1080 screen with nothing stored.\<close>

definition default_overlay :: overlay where
  "default_overlay =
     \<lparr>screen_width = 1920, screen_height = 1080,
      selection_box = box_init default_selection_rect False,
      translation_box = box_init default_translation_rect True,
      translated_text = [], running = True, queued = [], updates = 0, effects = []\<rparr>"

text \<open>
  Stub services: the grabber answers only for the region 100, 100, 300, 200; the
  recognition reads \<open>Hello\<close> from what was grabbed there; the translation answers with
  the two code points of the Chinese greeting.
\<close>

definition hello_world :: world where
  "hello_world =
     \<lparr>grab = (\<lambda>m. if m = \<lparr>m_top = 100, m_left = 100, m_width = 300, m_height = 200\<rparr>
                   then Inr \<lparr>shot_size = (300, 200), shot_rgb = [7]\<rparr>
                   else Inl CaptureError),
      frombytes = (\<lambda>sz data. Inr data),
      image_to_string = (\<lambda>img. if img = [7] then Inr [72, 101, 108, 108, 111] else Inr []),
      translate = (\<lambda>t. Inr [20320, 22909])\<rparr>"

text \<open>Stub services where the recognition finds only a blank and a line break.\<close>

definition blank_world :: world where
  "blank_world =
     \<lparr>grab = (\<lambda>m. Inr \<lparr>shot_size = (m_width m, m_height m), shot_rgb = []\<rparr>),
      frombytes = (\<lambda>sz data. Inr data),
      image_to_string = (\<lambda>img. Inr [32, 10]),
      translate = (\<lambda>t. Inr [20320, 22909])\<rparr>"

text \<open>Stub services where the grabber fails.\<close>

definition broken_world :: world where
  "broken_world =
     \<lparr>grab = (\<lambda>m. Inl CaptureError),
      frombytes = (\<lambda>sz data. Inr data),
      image_to_string = (\<lambda>img. Inr [72, 105]),
      translate = (\<lambda>t. Inr [20320, 22909])\<rparr>"

section \<open>Pointer events on a box\<close>

lemmas box_defs = idle_box_def dragging_box_def resizing_box_def wide_box_def box_init_def QRect_new_def
lemmas move_defs = mouse_move_event_def point_diff_def moveTo_def setWidth_def setHeight_def Let_def

text \<open>
  Claim C8. Releasing the pointer clears both interaction flags whatever they were,
  leaves the rectangle alone, and on a box that is already idle it changes nothing
  at all: mode, rectangle and anchor stay as they are.
\<close>

theorem mouse_release_event_resets:
  "\<not> dragging (mouse_release_event b) \<and> \<not> resizing (mouse_release_event b) \<and>
   rect (mouse_release_event b) = rect b \<and>
   (\<not> dragging b \<and> \<not> resizing b \<longrightarrow> mouse_release_event b = b)"
  by (simp add: mouse_release_event_def)

text \<open>
  The release on the idle box and on a box that is being dragged.
\<close>

theorem mouse_release_event_resets_witness:
  "\<not> dragging idle_box \<and> \<not> resizing idle_box \<and> mouse_release_event idle_box = idle_box \<and>
   dragging dragging_box \<and> \<not> dragging (mouse_release_event dragging_box) \<and>
   \<not> resizing (mouse_release_event dragging_box)"
  using mouse_release_event_resets[of idle_box] mouse_release_event_resets[of dragging_box]
  by (simp add: box_defs)

text \<open>
  Claim C10. One move on a box: while dragging, width and height are untouched;
  while resizing (and not dragging), the top-left corner is untouched; on an idle
  box nothing changes and the handler returns false.
\<close>

theorem mouse_move_event_frame:
  "(dragging b \<longrightarrow>
      rwidth (rect (fst (mouse_move_event sw sh p b))) = rwidth (rect b) \<and>
      rheight (rect (fst (mouse_move_event sw sh p b))) = rheight (rect b)) \<and>
   (\<not> dragging b \<and> resizing b \<longrightarrow>
      rx (rect (fst (mouse_move_event sw sh p b))) = rx (rect b) \<and>
      ry (rect (fst (mouse_move_event sw sh p b))) = ry (rect b)) \<and>
   (\<not> dragging b \<and> \<not> resizing b \<longrightarrow> mouse_move_event sw sh p b = (b, False))"
  by (simp add: move_defs)

text \<open>
  One move on a dragged box, on a resized box and on the idle box.
\<close>

theorem mouse_move_event_frame_witness:
  "dragging dragging_box \<and>
   rect (fst (mouse_move_event 1920 1080 \<lparr>px = 230, py = 190\<rparr> dragging_box)) = QRect_new 180 140 300 200 \<and>
   \<not> dragging resizing_box \<and> resizing resizing_box \<and>
   rect (fst (mouse_move_event 1920 1080 \<lparr>px = 405, py = 300\<rparr> resizing_box)) = QRect_new 100 100 310 205 \<and>
   \<not> dragging idle_box \<and> \<not> resizing idle_box \<and>
   mouse_move_event 1920 1080 \<lparr>px = 230, py = 190\<rparr> idle_box = (idle_box, False)"
  using mouse_move_event_frame[of dragging_box 1920 1080 "\<lparr>px = 230, py = 190\<rparr>"]
        mouse_move_event_frame[of resizing_box 1920 1080 "\<lparr>px = 405, py = 300\<rparr>"]
        mouse_move_event_frame[of idle_box 1920 1080 "\<lparr>px = 230, py = 190\<rparr>"]
  by (simp add: box_defs move_defs)

lemma edges_idle_box: "right (rect idle_box) = 399" "bottom (rect idle_box) = 299"
  by (simp_all add: box_defs right_def bottom_def wrap32_def)

lemma edges_edge_box: "right (rect edge_box) = - 2147483640" "bottom (rect edge_box) = 9"
  by (simp_all add: edge_box_def box_init_def QRect_new_def right_def bottom_def wrap32_def)

lemma edge_box_contains: "contains (rect edge_box) \<lparr>px = 0, py = 5\<rparr>"
  using edges_edge_box
  by (simp add: contains_def) (simp add: edge_box_def box_init_def QRect_new_def wrap32_def)

lemma idle_box_contains:
  "contains (rect idle_box) \<lparr>px = 395, py = 295\<rparr>"
  "contains (rect idle_box) \<lparr>px = 389, py = 299\<rparr>"
  "\<not> contains (rect idle_box) \<lparr>px = 402, py = 301\<rparr>"
  using edges_idle_box
  by (simp_all add: contains_def) (simp_all add: box_defs wrap32_def)

text \<open>
  Claim C4. A press on an idle box with the margin of 10: a point of the rectangle
  that is nearer than the margin to the bottom-right corner on both axes starts
  resizing and not dragging; every other point of the rectangle starts dragging; in
  both cases the anchor becomes the point and the event is accepted. A point outside
  the rectangle changes nothing and the event is ignored. The corner test is made
  first among the points of the rectangle, so it wins over dragging. The rectangle and
  its corner are Qt's: \<open>contains\<close>, \<open>right\<close> and \<open>bottom\<close> with their 32-bit edges.
\<close>

theorem mouse_press_event_modes:
  assumes "\<not> dragging b" and "\<not> resizing b" and "resize_margin b = 10"
  shows "(contains (rect b) p \<and> \<bar>px p - right (rect b)\<bar> < 10 \<and> \<bar>py p - bottom (rect b)\<bar> < 10 \<longrightarrow>
            mouse_press_event p b = (b\<lparr>resizing := True, drag_start := p\<rparr>, True)) \<and>
         (contains (rect b) p \<and> \<not> (\<bar>px p - right (rect b)\<bar> < 10 \<and> \<bar>py p - bottom (rect b)\<bar> < 10) \<longrightarrow>
            mouse_press_event p b = (b\<lparr>dragging := True, drag_start := p\<rparr>, True)) \<and>
         (\<not> contains (rect b) p \<longrightarrow> mouse_press_event p b = (b, False))"
  using assms by (simp add: mouse_press_event_def)

text \<open>
  Presses on the default selection box: near the corner, elsewhere inside, outside.
  And a press at 0, 5 on the box restored from \<open>2147483647,0,10,10\<close>, whose right edge
  has wrapped around: Qt finds the point inside, and the box starts dragging.
\<close>

theorem mouse_press_event_modes_witness:
  "\<not> dragging idle_box \<and> \<not> resizing idle_box \<and> resize_margin idle_box = 10 \<and>
   contains (rect idle_box) \<lparr>px = 395, py = 295\<rparr> \<and>
   resizing (fst (mouse_press_event \<lparr>px = 395, py = 295\<rparr> idle_box)) \<and>
   \<not> dragging (fst (mouse_press_event \<lparr>px = 395, py = 295\<rparr> idle_box)) \<and>
   drag_start (fst (mouse_press_event \<lparr>px = 395, py = 295\<rparr> idle_box)) = \<lparr>px = 395, py = 295\<rparr> \<and>
   contains (rect idle_box) \<lparr>px = 389, py = 299\<rparr> \<and>
   dragging (fst (mouse_press_event \<lparr>px = 389, py = 299\<rparr> idle_box)) \<and>
   \<not> resizing (fst (mouse_press_event \<lparr>px = 389, py = 299\<rparr> idle_box)) \<and>
   drag_start (fst (mouse_press_event \<lparr>px = 389, py = 299\<rparr> idle_box)) = \<lparr>px = 389, py = 299\<rparr> \<and>
   \<not> contains (rect idle_box) \<lparr>px = 402, py = 301\<rparr> \<and>
   mouse_press_event \<lparr>px = 402, py = 301\<rparr> idle_box = (idle_box, False) \<and>
   right (rect edge_box) = - 2147483640 \<and>
   contains (rect edge_box) \<lparr>px = 0, py = 5\<rparr> \<and>
   mouse_press_event \<lparr>px = 0, py = 5\<rparr> edge_box =
     (edge_box\<lparr>dragging := True, drag_start := \<lparr>px = 0, py = 5\<rparr>\<rparr>, True)"
proof -
  have h: "\<not> dragging idle_box" "\<not> resizing idle_box" "resize_margin idle_box = 10"
    by (simp_all add: box_defs)
  have g: "\<not> dragging edge_box" "\<not> resizing edge_box" "resize_margin edge_box = 10"
    by (simp_all add: edge_box_def box_init_def)
  note c = idle_box_contains
  have n: "\<bar>px \<lparr>px = 395, py = 295\<rparr> - right (rect idle_box)\<bar> < 10"
          "\<bar>py \<lparr>px = 395, py = 295\<rparr> - bottom (rect idle_box)\<bar> < 10"
          "\<not> \<bar>px \<lparr>px = 389, py = 299\<rparr> - right (rect idle_box)\<bar> < 10"
          "\<not> \<bar>px \<lparr>px = 0, py = 5\<rparr> - right (rect edge_box)\<bar> < 10"
    by (simp_all add: edges_idle_box edges_edge_box)
  from mouse_press_event_modes[OF h, of "\<lparr>px = 395, py = 295\<rparr>"] c(1) n(1,2)
  have 1: "mouse_press_event \<lparr>px = 395, py = 295\<rparr> idle_box =
             (idle_box\<lparr>resizing := True, drag_start := \<lparr>px = 395, py = 295\<rparr>\<rparr>, True)"
    by blast
  from mouse_press_event_modes[OF h, of "\<lparr>px = 389, py = 299\<rparr>"] c(2) n(3)
  have 2: "mouse_press_event \<lparr>px = 389, py = 299\<rparr> idle_box =
             (idle_box\<lparr>dragging := True, drag_start := \<lparr>px = 389, py = 299\<rparr>\<rparr>, True)"
    by blast
  from mouse_press_event_modes[OF h, of "\<lparr>px = 402, py = 301\<rparr>"] c(3)
  have 3: "mouse_press_event \<lparr>px = 402, py = 301\<rparr> idle_box = (idle_box, False)"
    by blast
  from mouse_press_event_modes[OF g, of "\<lparr>px = 0, py = 5\<rparr>"] edge_box_contains n(4)
  have 4: "mouse_press_event \<lparr>px = 0, py = 5\<rparr> edge_box =
             (edge_box\<lparr>dragging := True, drag_start := \<lparr>px = 0, py = 5\<rparr>\<rparr>, True)"
    by blast
  from h c edges_edge_box(1) edge_box_contains show ?thesis
    unfolding 1 2 3 4 by (simp add: box_defs)
qed

subsection \<open>Resizing\<close>

lemma resize_step_inv:
  assumes "rect_inv sw sh (rect b)" "resizing b" "\<not> dragging b"
  shows "rect_inv sw sh (rect (fst (mouse_move_event sw sh p b))) \<and>
         resizing (fst (mouse_move_event sw sh p b)) \<and>
         \<not> dragging (fst (mouse_move_event sw sh p b))"
  using assms by (auto simp: move_defs rect_inv_def)

lemma resize_moves_inv:
  "rect_inv sw sh (rect b) \<Longrightarrow> resizing b \<Longrightarrow> \<not> dragging b \<Longrightarrow>
   rect_inv sw sh (rect (moves sw sh ps b)) \<and> resizing (moves sw sh ps b) \<and>
   \<not> dragging (moves sw sh ps b)"
proof (induction ps arbitrary: b)
  case Nil
  then show ?case by simp
next
  case (Cons p ps)
  from resize_step_inv[OF Cons.prems, of p] Cons.IH show ?case by simp
qed

text \<open>
  Claim C2. From a rectangle that satisfies the invariant of the data model, on a
  box that is resizing, after every move of any sequence of moves the width is at
  least 100, the height at least 50, and the right and bottom edges stay on the
  screen, however far the pointer goes.
\<close>

theorem resize_sequence_invariant:
  assumes "rect_inv sw sh (rect b)" and "resizing b" and "\<not> dragging b"
  shows "\<forall>n \<le> length ps.
           100 \<le> rwidth (rect (moves sw sh (take n ps) b)) \<and>
           50 \<le> rheight (rect (moves sw sh (take n ps) b)) \<and>
           rx (rect (moves sw sh (take n ps) b)) + rwidth (rect (moves sw sh (take n ps) b)) \<le> sw \<and>
           ry (rect (moves sw sh (take n ps) b)) + rheight (rect (moves sw sh (take n ps) b)) \<le> sh"
  using resize_moves_inv[OF assms] by (simp add: rect_inv_def)

text \<open>
  The pointer flung far to the lower left and then far to the upper right.
\<close>

theorem resize_sequence_invariant_witness:
  "rect_inv 1920 1080 (rect resizing_box) \<and> resizing resizing_box \<and> \<not> dragging resizing_box \<and>
   rect (moves 1920 1080 [\<lparr>px = - 5000, py = 9000\<rparr>] resizing_box) = QRect_new 100 100 100 980 \<and>
   rect (moves 1920 1080 [\<lparr>px = - 5000, py = 9000\<rparr>, \<lparr>px = 9000, py = - 5000\<rparr>] resizing_box)
     = QRect_new 100 100 1820 50 \<and>
   100 \<le> rwidth (rect (moves 1920 1080 [\<lparr>px = - 5000, py = 9000\<rparr>, \<lparr>px = 9000, py = - 5000\<rparr>] resizing_box)) \<and>
   50 \<le> rheight (rect (moves 1920 1080 [\<lparr>px = - 5000, py = 9000\<rparr>, \<lparr>px = 9000, py = - 5000\<rparr>] resizing_box))"
proof -
  have h: "rect_inv 1920 1080 (rect resizing_box)" "resizing resizing_box" "\<not> dragging resizing_box"
    by (simp_all add: box_defs rect_inv_def)
  have e: "rect (moves 1920 1080 [\<lparr>px = - 5000, py = 9000\<rparr>] resizing_box) = QRect_new 100 100 100 980"
     "rect (moves 1920 1080 [\<lparr>px = - 5000, py = 9000\<rparr>, \<lparr>px = 9000, py = - 5000\<rparr>] resizing_box)
     = QRect_new 100 100 1820 50"
    by (simp_all add: box_defs move_defs)
  note th = resize_sequence_invariant[OF h, of "[\<lparr>px = - 5000, py = 9000\<rparr>, \<lparr>px = 9000, py = - 5000\<rparr>]"]
  from th[THEN spec, of 2]
  have "100 \<le> rwidth (rect (moves 1920 1080 [\<lparr>px = - 5000, py = 9000\<rparr>, \<lparr>px = 9000, py = - 5000\<rparr>] resizing_box)) \<and>
        50 \<le> rheight (rect (moves 1920 1080 [\<lparr>px = - 5000, py = 9000\<rparr>, \<lparr>px = 9000, py = - 5000\<rparr>] resizing_box))"
    by simp
  with h e show ?thesis by blast
qed

subsection \<open>Dragging\<close>

lemma drag_step:
  assumes "dragging b" "rwidth (rect b) \<le> sw" "rheight (rect b) \<le> sh"
  shows "dragging (fst (mouse_move_event sw sh p b)) \<and>
         rwidth (rect (fst (mouse_move_event sw sh p b))) = rwidth (rect b) \<and>
         rheight (rect (fst (mouse_move_event sw sh p b))) = rheight (rect b) \<and>
         0 \<le> rx (rect (fst (mouse_move_event sw sh p b))) \<and>
         rx (rect (fst (mouse_move_event sw sh p b))) \<le> sw - rwidth (rect b) \<and>
         0 \<le> ry (rect (fst (mouse_move_event sw sh p b))) \<and>
         ry (rect (fst (mouse_move_event sw sh p b))) \<le> sh - rheight (rect b)"
  using assms by (auto simp: move_defs)

lemma drag_moves:
  "dragging b \<Longrightarrow> rwidth (rect b) \<le> sw \<Longrightarrow> rheight (rect b) \<le> sh \<Longrightarrow> ps \<noteq> [] \<Longrightarrow>
   0 \<le> rx (rect (moves sw sh ps b)) \<and>
   rx (rect (moves sw sh ps b)) \<le> sw - rwidth (rect (moves sw sh ps b)) \<and>
   0 \<le> ry (rect (moves sw sh ps b)) \<and>
   ry (rect (moves sw sh ps b)) \<le> sh - rheight (rect (moves sw sh ps b))"
proof (induction ps arbitrary: b)
  case Nil
  then show ?case by simp
next
  case (Cons p ps)
  let ?b = "fst (mouse_move_event sw sh p b)"
  note s = drag_step[OF Cons.prems(1-3), of p]
  show ?case
  proof (cases ps)
    case Nil
    with s show ?thesis by simp
  next
    case (Cons q qs)
    with Cons.IH[of ?b] s show ?thesis by simp
  qed
qed

text \<open>
  Claim C3, amended. On a dragged box that is no wider and no higher than the
  screen, after every move of any sequence of moves the position satisfies
  \<open>0 \<le> x \<le> screen_width - width\<close> and \<open>0 \<le> y \<le> screen_height - height\<close>. And a dragged
  box at position 150, 150 that is moved by -400, -400 on a 1920 by 1080 screen ends
  at position 0, 0.
\<close>

theorem drag_sequence_clamped:
  "(dragging b \<and> rwidth (rect b) \<le> sw \<and> rheight (rect b) \<le> sh \<longrightarrow>
     (\<forall>n. 0 < n \<and> n \<le> length ps \<longrightarrow>
        0 \<le> rx (rect (moves sw sh (take n ps) b)) \<and>
        rx (rect (moves sw sh (take n ps) b)) \<le> sw - rwidth (rect (moves sw sh (take n ps) b)) \<and>
        0 \<le> ry (rect (moves sw sh (take n ps) b)) \<and>
        ry (rect (moves sw sh (take n ps) b)) \<le> sh - rheight (rect (moves sw sh (take n ps) b)))) \<and>
   (dragging b \<and> rx (rect b) = 150 \<and> ry (rect b) = 150 \<and>
    px p - px (drag_start b) = - 400 \<and> py p - py (drag_start b) = - 400 \<longrightarrow>
      rx (rect (fst (mouse_move_event 1920 1080 p b))) = 0 \<and>
      ry (rect (fst (mouse_move_event 1920 1080 p b))) = 0)"
proof (intro conjI impI allI)
  fix n
  assume a: "dragging b \<and> rwidth (rect b) \<le> sw \<and> rheight (rect b) \<le> sh" and n: "0 < n \<and> n \<le> length ps"
  then have ne: "take n ps \<noteq> []" by auto
  from a have d: "dragging b" "rwidth (rect b) \<le> sw" "rheight (rect b) \<le> sh" by simp_all
  note m = drag_moves[OF d ne]
  from m show "0 \<le> rx (rect (moves sw sh (take n ps) b))" by blast
  from m show "rx (rect (moves sw sh (take n ps) b)) \<le> sw - rwidth (rect (moves sw sh (take n ps) b))" by blast
  from m show "0 \<le> ry (rect (moves sw sh (take n ps) b))" by blast
  from m show "ry (rect (moves sw sh (take n ps) b)) \<le> sh - rheight (rect (moves sw sh (take n ps) b))" by blast
next
  assume a: "dragging b \<and> rx (rect b) = 150 \<and> ry (rect b) = 150 \<and>
    px p - px (drag_start b) = - 400 \<and> py p - py (drag_start b) = - 400"
  then show "rx (rect (fst (mouse_move_event 1920 1080 p b))) = 0"
    by (simp add: move_defs)
  from a show "ry (rect (fst (mouse_move_event 1920 1080 p b))) = 0"
    by (simp add: move_defs)
qed

text \<open>
  Without the bound on the size the claim fails: a box 3000 wide, as a stored
  geometry can make it, is held at \<open>x = 0\<close> by the outer \<open>max\<close>, which is more than
  \<open>1920 - 3000\<close>.
\<close>

theorem drag_wide_box_counterexample:
  "dragging wide_box \<and>
   rect (moves 1920 1080 [\<lparr>px = 20, py = 20\<rparr>] wide_box) = QRect_new 0 10 3000 200 \<and>
   \<not> rx (rect (moves 1920 1080 [\<lparr>px = 20, py = 20\<rparr>] wide_box))
       \<le> 1920 - rwidth (rect (moves 1920 1080 [\<lparr>px = 20, py = 20\<rparr>] wide_box))"
  by (simp add: box_defs move_defs)

text \<open>
  A box of the default size dragged far to the lower right and back a little,
  and the drag by -400, -400.
\<close>

theorem drag_sequence_clamped_witness:
  "dragging dragging_box \<and> rwidth (rect dragging_box) \<le> 1920 \<and> rheight (rect dragging_box) \<le> 1080 \<and>
   rect (moves 1920 1080 [\<lparr>px = 5000, py = 5000\<rparr>] dragging_box) = QRect_new 1620 880 300 200 \<and>
   rect (moves 1920 1080 [\<lparr>px = 5000, py = 5000\<rparr>, \<lparr>px = 4000, py = 4990\<rparr>] dragging_box)
     = QRect_new 620 870 300 200 \<and>
   rx (rect (moves 1920 1080 [\<lparr>px = 5000, py = 5000\<rparr>] dragging_box))
     \<le> 1920 - rwidth (rect (moves 1920 1080 [\<lparr>px = 5000, py = 5000\<rparr>] dragging_box)) \<and>
   rx (rect dragging_box) = 150 \<and> ry (rect dragging_box) = 150 \<and>
   rect (fst (mouse_move_event 1920 1080 \<lparr>px = - 200, py = - 200\<rparr> dragging_box)) = QRect_new 0 0 300 200"
proof -
  have h: "dragging dragging_box \<and> rwidth (rect dragging_box) \<le> 1920 \<and> rheight (rect dragging_box) \<le> 1080"
    by (simp add: box_defs)
  have s: "dragging dragging_box \<and> rx (rect dragging_box) = 150 \<and> ry (rect dragging_box) = 150 \<and>
    px \<lparr>px = - 200, py = - 200\<rparr> - px (drag_start dragging_box) = - 400 \<and>
    py \<lparr>px = - 200, py = - 200\<rparr> - py (drag_start dragging_box) = - 400"
    by (simp add: box_defs)
  note th = drag_sequence_clamped[of dragging_box 1920 1080 "[\<lparr>px = 5000, py = 5000\<rparr>]" "\<lparr>px = - 200, py = - 200\<rparr>"]
  from th h have "0 < (1::nat) \<and> 1 \<le> length [\<lparr>px = 5000, py = 5000\<rparr>] \<longrightarrow>
     rx (rect (moves 1920 1080 (take 1 [\<lparr>px = 5000, py = 5000\<rparr>]) dragging_box))
     \<le> 1920 - rwidth (rect (moves 1920 1080 (take 1 [\<lparr>px = 5000, py = 5000\<rparr>]) dragging_box))"
    by blast
  then have c: "rx (rect (moves 1920 1080 [\<lparr>px = 5000, py = 5000\<rparr>] dragging_box))
     \<le> 1920 - rwidth (rect (moves 1920 1080 [\<lparr>px = 5000, py = 5000\<rparr>] dragging_box))"
    by simp
  from th s have z: "rx (rect (fst (mouse_move_event 1920 1080 \<lparr>px = - 200, py = - 200\<rparr> dragging_box))) = 0 \<and>
      ry (rect (fst (mouse_move_event 1920 1080 \<lparr>px = - 200, py = - 200\<rparr> dragging_box))) = 0"
    by blast
  have e: "rect (moves 1920 1080 [\<lparr>px = 5000, py = 5000\<rparr>] dragging_box) = QRect_new 1620 880 300 200"
     "rect (moves 1920 1080 [\<lparr>px = 5000, py = 5000\<rparr>, \<lparr>px = 4000, py = 4990\<rparr>] dragging_box)
     = QRect_new 620 870 300 200"
     "rect (fst (mouse_move_event 1920 1080 \<lparr>px = - 200, py = - 200\<rparr> dragging_box)) = QRect_new 0 0 300 200"
    by (simp_all add: box_defs move_defs)
  from h s c e show ?thesis by blast
qed

section \<open>Persisted geometry at startup\<close>

lemma py_int_abc: "py_int [97, 98, 99] = None"
  by (simp add: py_int_def strip_with_def int_space_def isspace_def digit_value_def decimal_starts_def)

lemma malformed_abc: "malformed [97, 98, 99]"
  by (simp add: malformed_def py_int_abc)

lemma malformed_short: "malformed [49, 44, 50, 44, 51]"
  by (simp add: malformed_def)

lemma load_geometry_None: "load_geometry None d = Inr d"
  by (simp add: load_geometry_def)

lemma load_geometry_malformed: "malformed s \<Longrightarrow> load_geometry (Some s) d = Inl ValueError"
  unfolding load_geometry_def malformed_def list_ex_iff
  by (auto split: list.splits option.splits)

lemma load_geometry_Some_error:
  "load_geometry (Some s) d = Inl e \<Longrightarrow> e = ValueError \<or> e = OverflowError"
  unfolding load_geometry_def QRect_from_python_def
  by (auto split: list.splits option.splits if_splits)

lemma init_ui_Inr:
  "init_ui settings = Inr (sb, tb) \<Longrightarrow>
   (\<exists>r1 r2. load_geometry (settings ''selection_box_geometry'') default_selection_rect = Inr r1 \<and>
            load_geometry (settings ''translation_box_geometry'') default_translation_rect = Inr r2 \<and>
            sb = box_init r1 False \<and> tb = box_init r2 True)"
  unfolding init_ui_def
  by (cases "load_geometry (settings ''selection_box_geometry'') default_selection_rect";
      cases "load_geometry (settings ''translation_box_geometry'') default_translation_rect") simp_all

lemma rect_box_init: "rect (box_init r t) = r"
  by (simp add: box_init_def)

text \<open>The stored value \<open>2147483647,0,10,10\<close> passes the range check and gives that box.\<close>

lemma py_int_max: "py_int [50, 49, 52, 55, 52, 56, 51, 54, 52, 55] = Some 2147483647"
  by (simp add: py_int_def strip_with_def int_space_def isspace_def digit_value_def decimal_starts_def)

lemma py_int_0_10: "py_int [48] = Some 0" "py_int [49, 48] = Some 10"
  by (simp_all add: py_int_def strip_with_def int_space_def isspace_def digit_value_def decimal_starts_def)

lemma init_ui_edge_settings:
  "init_ui edge_settings = Inr (edge_box, box_init default_translation_rect True)"
  by (simp add: init_ui_def edge_settings_def load_geometry_def py_int_max py_int_0_10
        QRect_from_python_def c_int_def edge_box_def default_selection_rect_def)

text \<open>
  Claim C1, amended. When nothing is stored for either box, both boxes get their
  default rectangles, selection 100, 100, 300, 200 and translation 420, 100, 300, 200;
  and whenever startup succeeds, a box with nothing stored has its default
  rectangle. A malformed stored value is not replaced by the default: \<open>init_ui\<close>
  ends with an exception, \<open>ValueError\<close> for a malformed selection value, and
  \<open>ValueError\<close> or the \<open>OverflowError\<close> of the selection value for a malformed
  translation value.
\<close>

theorem init_ui_absent_or_malformed:
  "(settings ''selection_box_geometry'' = None \<and> settings ''translation_box_geometry'' = None \<longrightarrow>
      init_ui settings = Inr (box_init (QRect_new 100 100 300 200) False,
                              box_init (QRect_new 420 100 300 200) True)) \<and>
   (\<forall>sb tb. init_ui settings = Inr (sb, tb) \<longrightarrow>
      (settings ''selection_box_geometry'' = None \<longrightarrow> rect sb = QRect_new 100 100 300 200) \<and>
      (settings ''translation_box_geometry'' = None \<longrightarrow> rect tb = QRect_new 420 100 300 200)) \<and>
   (\<forall>s. settings ''selection_box_geometry'' = Some s \<and> malformed s \<longrightarrow>
      init_ui settings = Inl ValueError) \<and>
   (\<forall>t. settings ''translation_box_geometry'' = Some t \<and> malformed t \<longrightarrow>
      init_ui settings = Inl ValueError \<or> init_ui settings = Inl OverflowError)"
proof (intro conjI allI impI)
  assume "settings ''selection_box_geometry'' = None \<and> settings ''translation_box_geometry'' = None"
  then show "init_ui settings = Inr (box_init (QRect_new 100 100 300 200) False,
                              box_init (QRect_new 420 100 300 200) True)"
    by (simp add: init_ui_def load_geometry_None default_selection_rect_def default_translation_rect_def)
next
  fix sb tb assume a: "init_ui settings = Inr (sb, tb)" "settings ''selection_box_geometry'' = None"
  from init_ui_Inr[OF a(1)] a(2) show "rect sb = QRect_new 100 100 300 200"
    by (auto simp: load_geometry_None default_selection_rect_def rect_box_init)
next
  fix sb tb assume a: "init_ui settings = Inr (sb, tb)" "settings ''translation_box_geometry'' = None"
  from init_ui_Inr[OF a(1)] a(2) show "rect tb = QRect_new 420 100 300 200"
    by (auto simp: load_geometry_None default_translation_rect_def rect_box_init)
next
  fix s assume "settings ''selection_box_geometry'' = Some s \<and> malformed s"
  then show "init_ui settings = Inl ValueError"
    by (simp add: init_ui_def load_geometry_malformed)
next
  fix t assume a: "settings ''translation_box_geometry'' = Some t \<and> malformed t"
  show "init_ui settings = Inl ValueError \<or> init_ui settings = Inl OverflowError"
  proof (cases "load_geometry (settings ''selection_box_geometry'') default_selection_rect")
    case (Inl e)
    have "e = ValueError \<or> e = OverflowError"
    proof (cases "settings ''selection_box_geometry''")
      case None
      with Inl show ?thesis by (simp add: load_geometry_None)
    next
      case (Some s)
      with Inl show ?thesis using load_geometry_Some_error[of s default_selection_rect e] by simp
    qed
    with Inl show ?thesis by (auto simp: init_ui_def)
  next
    case (Inr r)
    with a show ?thesis by (simp add: init_ui_def load_geometry_malformed)
  qed
qed

text \<open>
  The stored selection value \<open>abc\<close> is not replaced by the default rectangle:
  startup fails with \<open>ValueError\<close>.
\<close>

theorem init_ui_malformed_counterexample:
  "bad_settings ''selection_box_geometry'' = Some [97, 98, 99] \<and>
   malformed [97, 98, 99] \<and>
   init_ui bad_settings = Inl ValueError \<and>
   Overlay_init 1920 1080 bad_settings = Inl ValueError"
proof -
  have b: "bad_settings ''selection_box_geometry'' = Some [97, 98, 99]"
    by (simp add: bad_settings_def)
  have i: "init_ui bad_settings = Inl ValueError"
    by (simp add: init_ui_def b load_geometry_malformed malformed_abc)
  from b i malformed_abc show ?thesis by (simp add: Overlay_init_def)
qed

text \<open>
  Nothing stored; a malformed selection value; a translation value of three fields.
\<close>

theorem init_ui_absent_or_malformed_witness:
  "init_ui Map.empty = Inr (box_init (QRect_new 100 100 300 200) False,
                            box_init (QRect_new 420 100 300 200) True) \<and>
   bad_settings ''selection_box_geometry'' = Some [97, 98, 99] \<and> malformed [97, 98, 99] \<and>
   init_ui bad_settings = Inl ValueError \<and>
   short_settings ''translation_box_geometry'' = Some [49, 44, 50, 44, 51] \<and>
   malformed [49, 44, 50, 44, 51] \<and>
   init_ui short_settings = Inl ValueError"
proof -
  have b: "bad_settings ''selection_box_geometry'' = Some [97, 98, 99]"
    by (simp add: bad_settings_def)
  have s: "short_settings ''translation_box_geometry'' = Some [49, 44, 50, 44, 51]"
          "short_settings ''selection_box_geometry'' = None"
    by (simp_all add: short_settings_def)
  have e: "init_ui short_settings \<noteq> Inl OverflowError"
    by (simp add: init_ui_def s load_geometry_None load_geometry_malformed malformed_short)
  have 1: "init_ui Map.empty = Inr (box_init (QRect_new 100 100 300 200) False,
                            box_init (QRect_new 420 100 300 200) True)"
    using init_ui_absent_or_malformed[of Map.empty] by simp
  have 2: "init_ui bad_settings = Inl ValueError"
    using init_ui_absent_or_malformed[of bad_settings] b malformed_abc by blast
  have 3: "init_ui short_settings = Inl ValueError"
    using init_ui_absent_or_malformed[of short_settings] s(1) malformed_short e by blast
  from 1 2 3 b s(1) malformed_abc malformed_short show ?thesis by blast
qed

section \<open>The pipeline\<close>

lemma try_body_blank:
  assumes "grab w mon = Inr sct_img"
    and "frombytes w (shot_size sct_img) (shot_rgb sct_img) = Inr img"
    and "image_to_string w img = Inr text"
    and "strip text = []"
  shows "try_body w mon s =
           (s\<lparr>effects := effects s @
                 [CallGrab mon, CallFromBytes (shot_size sct_img) (shot_rgb sct_img),
                  CallImageToString img, PrintOcr text]\<rparr>, None)"
  using assms by (simp add: try_body_def did_def)

lemma read_monitor_default:
  "read_monitor default_overlay = \<lparr>m_top = 100, m_left = 100, m_width = 300, m_height = 200\<rparr>"
  by (simp add: read_monitor_def default_overlay_def box_init_def default_selection_rect_def
        QRect_new_def top_edge_def left_def)

lemma strip_blank: "strip [32, 10] = []"
  by (simp add: strip_def strip_with_def isspace_def)

lemma strip_Hello: "strip [72, 101, 108, 108, 111] = [72, 101, 108, 108, 111]"
  by (simp add: strip_def strip_with_def isspace_def)

text \<open>
  Claim C5. A pass in which the recognized text is empty after stripping white
  space makes exactly the calls to grab, convert and recognize, prints, and sleeps:
  the translation is not called, nothing is queued for the user-interface thread,
  and the translated text stays as it was, also after the event loop has run.
\<close>

theorem iteration_blank_text_skips_translation:
  assumes "grab w (read_monitor s) = Inr sct_img"
    and "frombytes w (shot_size sct_img) (shot_rgb sct_img) = Inr img"
    and "image_to_string w img = Inr text"
    and "strip text = []"
  shows "iteration w s =
           s\<lparr>effects := effects s @
                 [CallGrab (read_monitor s),
                  CallFromBytes (shot_size sct_img) (shot_rgb sct_img),
                  CallImageToString img, PrintOcr text, Sleep]\<rparr> \<and>
         (\<forall>t. CallTranslate t \<notin> set (drop (length (effects s)) (effects (iteration w s)))) \<and>
         translated_text (iteration w s) = translated_text s \<and>
         queued (iteration w s) = queued s \<and>
         (queued s = [] \<longrightarrow>
            translated_text (process_events (iteration w s)) = translated_text s \<and>
            updates (process_events (iteration w s)) = updates s)"
proof -
  have it: "iteration w s =
           s\<lparr>effects := effects s @
                 [CallGrab (read_monitor s),
                  CallFromBytes (shot_size sct_img) (shot_rgb sct_img),
                  CallImageToString img, PrintOcr text, Sleep]\<rparr>"
    by (simp add: iteration_def try_body_blank[OF assms] did_def)
  show ?thesis unfolding it by (simp add: process_events_def)
qed

text \<open>
  Recognition that returns a blank and a line break.
\<close>

theorem iteration_blank_text_skips_translation_witness:
  "grab blank_world (read_monitor default_overlay) = Inr \<lparr>shot_size = (300, 200), shot_rgb = []\<rparr> \<and>
   frombytes blank_world (300, 200) [] = Inr [] \<and>
   image_to_string blank_world [] = Inr [32, 10] \<and>
   strip [32, 10] = [] \<and>
   effects (iteration blank_world default_overlay) =
     [CallGrab \<lparr>m_top = 100, m_left = 100, m_width = 300, m_height = 200\<rparr>,
      CallFromBytes (300, 200) [], CallImageToString [], PrintOcr [32, 10], Sleep] \<and>
   translated_text (iteration blank_world default_overlay) = [] \<and>
   queued (iteration blank_world default_overlay) = [] \<and>
   updates (process_events (iteration blank_world default_overlay)) = 0"
proof -
  have g: "grab blank_world (read_monitor default_overlay) = Inr \<lparr>shot_size = (300, 200), shot_rgb = []\<rparr>"
    by (simp add: blank_world_def read_monitor_default)
  have f: "frombytes blank_world (shot_size \<lparr>shot_size = (300, 200), shot_rgb = []\<rparr>)
             (shot_rgb \<lparr>shot_size = (300, 200), shot_rgb = []\<rparr>) = Inr []"
    by (simp add: blank_world_def)
  have o: "image_to_string blank_world [] = Inr [32, 10]"
    by (simp add: blank_world_def)
  have d: "effects default_overlay = []" "translated_text default_overlay = []"
          "queued default_overlay = []" "updates default_overlay = 0"
    by (simp_all add: default_overlay_def)
  note th = iteration_blank_text_skips_translation[OF g f o strip_blank]
  from th d(3) have u: "updates (process_events (iteration blank_world default_overlay)) =
                        updates default_overlay"
    by blast
  from th have e: "effects (iteration blank_world default_overlay) =
     effects default_overlay @
     [CallGrab (read_monitor default_overlay), CallFromBytes (300, 200) [],
      CallImageToString [], PrintOcr [32, 10], Sleep]"
    by simp
  from th have t: "translated_text (iteration blank_world default_overlay) =
                     translated_text default_overlay"
    and q: "queued (iteration blank_world default_overlay) = queued default_overlay"
    by blast+
  from g f o strip_blank u e t q d show ?thesis by (simp add: read_monitor_default)
qed

text \<open>
  Claim C6. A pass in which the grabber raises changes nothing but the log: the
  running flag, the translated text and the queue are as before, the error is
  printed, the pass sleeps, and the loop goes on with the next pass.
\<close>

theorem iteration_capture_error_continues:
  assumes "grab w (read_monitor s) = Inl e"
  shows "iteration w s =
           s\<lparr>effects := effects s @ [CallGrab (read_monitor s), PrintError e, Sleep]\<rparr> \<and>
         running (iteration w s) = running s \<and>
         translated_text (iteration w s) = translated_text s \<and>
         queued (iteration w s) = queued s \<and>
         (running s \<longrightarrow>
            capture_and_translate (w # ws) s = capture_and_translate ws (iteration w s) \<and>
            capture_and_translate (w # w' # ws) s =
              capture_and_translate ws (iteration w' (iteration w s)))"
proof -
  have it: "iteration w s =
           s\<lparr>effects := effects s @ [CallGrab (read_monitor s), PrintError e, Sleep]\<rparr>"
    using assms by (simp add: iteration_def try_body_def did_def)
  show ?thesis by (simp add: it)
qed

text \<open>
  A failing grabber in the first pass, working services in the second.
\<close>

theorem iteration_capture_error_continues_witness:
  "grab broken_world (read_monitor default_overlay) = Inl CaptureError \<and>
   running default_overlay \<and>
   running (iteration broken_world default_overlay) \<and>
   translated_text (iteration broken_world default_overlay) = [] \<and>
   effects (iteration broken_world default_overlay) =
     [CallGrab \<lparr>m_top = 100, m_left = 100, m_width = 300, m_height = 200\<rparr>,
      PrintError CaptureError, Sleep] \<and>
   capture_and_translate [broken_world, hello_world] default_overlay =
     iteration hello_world (iteration broken_world default_overlay)"
proof -
  have g: "grab broken_world (read_monitor default_overlay) = Inl CaptureError"
    by (simp add: broken_world_def)
  have d: "effects default_overlay = []" "translated_text default_overlay = []"
          "running default_overlay"
    by (simp_all add: default_overlay_def)
  from iteration_capture_error_continues[OF g, of "[]" hello_world] g d
  show ?thesis by (simp add: read_monitor_default)
qed

text \<open>
  Claim C7. The overlay started with nothing stored has the selection box
  100, 100, 300, 200. One pass with a grabber whose image reads \<open>Hello\<close> and a
  translation that answers with the Chinese greeting queues that answer; when the
  event loop has delivered it, the translated text is the greeting and exactly one
  redraw has been requested.
\<close>

theorem hello_scenario:
  "Overlay_init 1920 1080 Map.empty = Inr default_overlay \<and>
   rect (selection_box default_overlay) = QRect_new 100 100 300 200 \<and>
   queued (iteration hello_world default_overlay) = [[20320, 22909]] \<and>
   translated_text (process_events (iteration hello_world default_overlay)) = [20320, 22909] \<and>
   updates (process_events (iteration hello_world default_overlay)) = 1 \<and>
   queued (process_events (iteration hello_world default_overlay)) = []"
proof -
  have i: "Overlay_init 1920 1080 Map.empty = Inr default_overlay"
    by (simp add: Overlay_init_def init_ui_def load_geometry_def default_overlay_def)
  have r: "rect (selection_box default_overlay) = QRect_new 100 100 300 200"
    by (simp add: default_overlay_def box_init_def default_selection_rect_def)
  have t: "try_body hello_world \<lparr>m_top = 100, m_left = 100, m_width = 300, m_height = 200\<rparr> default_overlay =
             (default_overlay\<lparr>effects :=
                [CallGrab \<lparr>m_top = 100, m_left = 100, m_width = 300, m_height = 200\<rparr>,
                 CallFromBytes (300, 200) [7], CallImageToString [7],
                 PrintOcr [72, 101, 108, 108, 111], CallTranslate [72, 101, 108, 108, 111],
                 PrintTranslated [20320, 22909]],
                queued := [[20320, 22909]]\<rparr>, None)"
    by (simp add: try_body_def hello_world_def did_def strip_Hello default_overlay_def)
  have q: "iteration hello_world default_overlay =
             default_overlay\<lparr>effects :=
                [CallGrab \<lparr>m_top = 100, m_left = 100, m_width = 300, m_height = 200\<rparr>,
                 CallFromBytes (300, 200) [7], CallImageToString [7],
                 PrintOcr [72, 101, 108, 108, 111], CallTranslate [72, 101, 108, 108, 111],
                 PrintTranslated [20320, 22909], Sleep],
                queued := [[20320, 22909]]\<rparr>"
    by (simp add: iteration_def read_monitor_default t did_def)
  show ?thesis unfolding q using i r
    by (simp add: process_events_def update_translation_def default_overlay_def)
qed

section \<open>The snapshot of the rectangle\<close>

text \<open>
  Claim C9, amended. A pass reads top, left, width and height of the selection box
  with four separate calls on the shared rectangle. When the rectangle is the same
  at the four reads, the monitor is the snapshot of that one rectangle; so it is in
  particular when the user-interface thread handles no pointer move between the
  reads. Nothing in the program excludes a move between two reads.
\<close>

theorem read_monitor_consistent_without_mutation:
  "(rect (selection_box s2) = rect (selection_box s1) \<and>
    rect (selection_box s3) = rect (selection_box s1) \<and>
    rect (selection_box s4) = rect (selection_box s1) \<longrightarrow>
      read_monitor_at s1 s2 s3 s4 = read_monitor s1) \<and>
   read_monitor_interleaved [] [] [] s = read_monitor s"
  by (simp add: read_monitor_at_def read_monitor_def read_monitor_interleaved_def)

lemma move_dragged_overlay:
  "mouseMoveEvent \<lparr>px = 250, py = 250\<rparr> dragged_overlay =
     dragged_overlay
       \<lparr>selection_box := (box_init (QRect_new 150 150 300 200) False)
            \<lparr>dragging := True, drag_start := \<lparr>px = 250, py = 250\<rparr>\<rparr>,
        updates := 1\<rparr>"
  by (simp add: mouseMoveEvent_def dragged_overlay_def box_defs move_defs)

text \<open>
  The snapshot is not consistent under concurrent mutation: while the selection box
  is dragged, a pointer move handled between the read of top and the read of left
  takes the rectangle from 100, 100 to 150, 150, and the monitor gets the old top 100
  with the new left 150, the region of neither rectangle.
\<close>

theorem read_monitor_torn_counterexample:
  "read_monitor dragged_overlay = \<lparr>m_top = 100, m_left = 100, m_width = 300, m_height = 200\<rparr> \<and>
   read_monitor (mouseMoveEvent \<lparr>px = 250, py = 250\<rparr> dragged_overlay) =
     \<lparr>m_top = 150, m_left = 150, m_width = 300, m_height = 200\<rparr> \<and>
   read_monitor_interleaved [\<lparr>px = 250, py = 250\<rparr>] [] [] dragged_overlay =
     \<lparr>m_top = 100, m_left = 150, m_width = 300, m_height = 200\<rparr>"
  unfolding read_monitor_interleaved_def Let_def fold_simps id_apply move_dragged_overlay
  by (simp add: read_monitor_def read_monitor_at_def dragged_overlay_def box_defs top_edge_def left_def)

text \<open>
  Four reads between which only the translated text changed, and four reads with no
  pointer move in between.
\<close>

theorem read_monitor_consistent_without_mutation_witness:
  "rect (selection_box (update_translation [72, 105] default_overlay)) = rect (selection_box default_overlay) \<and>
   read_monitor_at default_overlay (update_translation [72, 105] default_overlay)
       default_overlay default_overlay =
     \<lparr>m_top = 100, m_left = 100, m_width = 300, m_height = 200\<rparr> \<and>
   read_monitor_interleaved [] [] [] dragged_overlay =
     \<lparr>m_top = 100, m_left = 100, m_width = 300, m_height = 200\<rparr>"
proof -
  have r: "rect (selection_box (update_translation [72, 105] default_overlay)) =
           rect (selection_box default_overlay)"
    by (simp add: update_translation_def)
  have m: "read_monitor default_overlay = \<lparr>m_top = 100, m_left = 100, m_width = 300, m_height = 200\<rparr>"
          "read_monitor dragged_overlay = \<lparr>m_top = 100, m_left = 100, m_width = 300, m_height = 200\<rparr>"
    by (simp_all add: read_monitor_def default_overlay_def dragged_overlay_def box_init_def
          default_selection_rect_def QRect_new_def top_edge_def left_def)
  from read_monitor_consistent_without_mutation
         [of "update_translation [72, 105] default_overlay" default_overlay default_overlay
             default_overlay dragged_overlay] r m
  show ?thesis by simp
qed

end
